theory Spec2Isabelle
  imports Complex_Main "HOL-Library.Word" "HOL-Library.Finite_Map"
begin

section \<open>Values stored in a claims container\<close>

text \<open>
  The Go type is \<^verbatim>\<open>type Claims map[string]interface{}\<close>. A value of
  \<^verbatim>\<open>interface{}\<close> is a tagged union over the dynamic types; the constructors
  below are the dynamic types the type switches of \<^verbatim>\<open>claims.go\<close> tell apart,
  those the JSON decoder produces, and \<open>VOther\<close> for a value of any further dynamic
  type (named by its type), which every type switch of the source sends down its
  default path. \<open>VNil\<close> is the nil interface value. Go's \<^verbatim>\<open>int\<close> is taken
  to be 64 bits wide. The type parameter \<open>'f\<close> stands for \<^verbatim>\<open>float64\<close>.
\<close>

datatype 'f val =
    VNil
  | VBool bool
  | VString string
  | VInt "64 word"
  | VInt32 "32 word"
  | VInt64 "64 word"
  | VFloat64 'f
  | VStrings "string list"
  | VList "'f val list"
  | VObject "(string, 'f val) fmap"
  | VOther string

text \<open>
  A map value is either nil (no backing storage, \<open>None\<close>) or an allocated, finite
  map (\<open>Some m\<close>). Methods with a value receiver that write to the map are modelled
  by returning the container after the call next to the method's result.
\<close>

type_synonym 'f Claims = "(string, 'f val) fmap option"

definition NewClaims :: "'f Claims" where
  "NewClaims = Some fmempty"

definition Len :: "'f Claims \<Rightarrow> nat" where
  "Len c = (case c of None \<Rightarrow> 0 | Some m \<Rightarrow> fcard (fmdom m))"

definition Get :: "'f Claims \<Rightarrow> string \<Rightarrow> 'f val \<times> bool" where
  "Get c key =
     (case c of
        None \<Rightarrow> (VNil, False)
      | Some m \<Rightarrow> (case fmlookup m key of None \<Rightarrow> (VNil, False) | Some v \<Rightarrow> (v, True)))"

definition Set :: "'f Claims \<Rightarrow> string \<Rightarrow> 'f val \<Rightarrow> 'f Claims \<times> 'f val" where
  "Set c key v =
     (case c of
        None \<Rightarrow> (None, VNil)
      | Some m \<Rightarrow> (let old = fst (Get c key) in (Some (fmupd key v m), old)))"

text \<open>Go's builtin \<^verbatim>\<open>delete\<close> on a nil map does nothing.\<close>

definition Delete :: "'f Claims \<Rightarrow> string \<Rightarrow> 'f Claims \<times> 'f val" where
  "Delete c key =
     (let old = fst (Get c key)
      in (case c of None \<Rightarrow> (None, old) | Some m \<Rightarrow> (Some (fmdrop key m), old)))"

definition Contains :: "'f Claims \<Rightarrow> string \<Rightarrow> bool" where
  "Contains c key = snd (Get c key)"

text \<open>A write to the container: a call of \<open>Set\<close> or of \<open>Delete\<close>.\<close>

datatype 'f wr_op = WSet string "'f val" | WDelete string

fun apply_write :: "'f Claims \<Rightarrow> 'f wr_op \<Rightarrow> 'f Claims \<times> 'f val" where
  "apply_write c (WSet key v) = Set c key v"
| "apply_write c (WDelete key) = Delete c key"

fun apply_writes :: "'f Claims \<Rightarrow> 'f wr_op list \<Rightarrow> 'f Claims" where
  "apply_writes c [] = c"
| "apply_writes c (w # ws) = apply_writes (fst (apply_write c w)) ws"

section \<open>Library functions and language conversions used by the accessors\<close>

text \<open>
  The accessors call functions of the Go standard library and use the language's
  numeric conversions. Their code is not part of the repository, so they are
  parameters of the model, collected in one record; every theorem below holds
  for whatever these functions compute.
  \<^item> \<open>int_of_float64\<close>: the conversions \<^verbatim>\<open>int(v)\<close> and \<^verbatim>\<open>int64(v)\<close> of a
    \<^verbatim>\<open>float64\<close> (the language discards the fraction; the result for a value
    outside the integer range is left to the implementation);
  \<^item> \<open>float64_of_int\<close>: the conversion \<^verbatim>\<open>float64(v)\<close> of an \<^verbatim>\<open>int\<close>;
  \<^item> \<open>strconv_ParseInt s base bitSize\<close> and \<open>strconv_ParseFloat s bitSize\<close>:
    \<open>None\<close> stands for a non-nil error;
  \<^item> \<open>time_Parse layout value\<close>: \<open>None\<close> stands for a non-nil error;
  \<^item> \<open>json_Marshal\<close>: \<^verbatim>\<open>json.Marshal\<close> on a map (nil or not);
  \<^item> \<open>json_Unmarshal b raw\<close>: \<^verbatim>\<open>json.Unmarshal(b, &raw)\<close>, see \<open>unmarshalled\<close>.
\<close>

datatype lib_error = LibError string

text \<open>
  \<^verbatim>\<open>json.Unmarshal(b, &raw)\<close> receives a pointer to the variable \<^verbatim>\<open>raw\<close>, which
  references the same map object as the container when that is not nil. After the
  call, \<open>pointee\<close> is the content of the map object \<^verbatim>\<open>raw\<close> referenced before
  the call (it may have been written in place; without meaning when \<^verbatim>\<open>raw\<close> was
  nil), \<open>raw_after\<close> is the map \<^verbatim>\<open>raw\<close> references after the call (nil, the
  same object, or a new one), and \<open>unmarshal_err\<close> is the returned error.
\<close>

record 'f unmarshalled =
  pointee :: "(string, 'f val) fmap"
  raw_after :: "(string, 'f val) fmap option"
  unmarshal_err :: "lib_error option"

datatype location = UTC | Local | FixedZone string int

text \<open>
  A \<^verbatim>\<open>time.Time\<close>: an instant, given by its Unix seconds (what \<^verbatim>\<open>t.Unix()\<close>
  returns, an \<^verbatim>\<open>int64\<close>) and the nanoseconds within that second, and a location,
  which only affects presentation.
\<close>

record Time =
  unixSec :: "64 word"
  nanos :: nat
  location :: location

record 'f go_env =
  int_of_float64 :: "'f \<Rightarrow> 64 word"
  float64_of_int :: "64 word \<Rightarrow> 'f"
  strconv_ParseInt :: "string \<Rightarrow> nat \<Rightarrow> nat \<Rightarrow> 64 word option"
  strconv_ParseFloat :: "string \<Rightarrow> nat \<Rightarrow> 'f option"
  time_Parse :: "string \<Rightarrow> string \<Rightarrow> Time option"
  json_Marshal :: "'f Claims \<Rightarrow> lib_error + string"
  json_Unmarshal :: "string \<Rightarrow> (string, 'f val) fmap option \<Rightarrow> 'f unmarshalled"

text \<open>\<^verbatim>\<open>time.Time{}\<close>, the zero time: January 1, year 1, 00:00:00 UTC.\<close>

definition zero_Time :: Time where
  "zero_Time = \<lparr>unixSec = - 62135596800, nanos = 0, location = UTC\<rparr>"

text \<open>\<^verbatim>\<open>time.Unix(sec, 0)\<close>: the local time of the given Unix second.\<close>

definition time_Unix :: "64 word \<Rightarrow> Time" where
  "time_Unix s = \<lparr>unixSec = s, nanos = 0, location = Local\<rparr>"

text \<open>\<^verbatim>\<open>t.Unix()\<close>.\<close>

definition Time_Unix :: "Time \<Rightarrow> 64 word" where
  "Time_Unix t = unixSec t"

text \<open>\<^verbatim>\<open>t.Equal(u)\<close>: the same instant, whatever the locations.\<close>

definition Time_Equal :: "Time \<Rightarrow> Time \<Rightarrow> bool" where
  "Time_Equal t u = (unixSec t = unixSec u \<and> nanos t = nanos u)"

definition RFC3339 :: string where
  "RFC3339 = ''2006-01-02T15:04:05Z07:00''"

section \<open>Typed accessors\<close>



definition GetTime :: "'f go_env \<Rightarrow> 'f Claims \<Rightarrow> string \<Rightarrow> Time \<times> bool" where
  "GetTime env c key =
     (case Get c key of (value, ok) \<Rightarrow>
        if \<not> ok then (zero_Time, False)
        else (case value of
                VInt v \<Rightarrow> (time_Unix v, True)
              | VInt32 v \<Rightarrow> (time_Unix (scast v), True)
              | VInt64 v \<Rightarrow> (time_Unix v, True)
              | VFloat64 v \<Rightarrow> (time_Unix (int_of_float64 env v), True)
              | VString v \<Rightarrow>
                  (case time_Parse env RFC3339 v of
                     None \<Rightarrow> (zero_Time, False)
                   | Some t \<Rightarrow> (t, True))
              | _ \<Rightarrow> (zero_Time, False)))"

definition SetTime :: "'f go_env \<Rightarrow> 'f Claims \<Rightarrow> string \<Rightarrow> Time \<Rightarrow> 'f Claims \<times> Time" where
  "SetTime env c key t =
     (let old = fst (GetTime env c key);
          c' = fst (Set c key (VInt64 (Time_Unix t)))
      in (c', old))"

definition Expiration :: "'f go_env \<Rightarrow> 'f Claims \<Rightarrow> Time \<times> bool" where
  "Expiration env c = GetTime env c ''exp''"

definition SetExpiration :: "'f go_env \<Rightarrow> 'f Claims \<Rightarrow> Time \<Rightarrow> 'f Claims \<times> Time" where
  "SetExpiration env c t = SetTime env c ''exp'' t"

section \<open>The audience claim\<close>

text \<open>
  The loop of the helper \<^verbatim>\<open>makeStrings\<close>: it casts the elements in order, collects
  the strings, and gives up at the first element that is not a string. A nil slice
  of strings is the empty list.
\<close>

fun castStrings :: "'f val list \<Rightarrow> string list \<Rightarrow> string list \<times> bool" where
  "castStrings [] strs = (strs, True)"
| "castStrings (aud # auds) strs =
     (case aud of
        VString str \<Rightarrow> castStrings auds (strs @ [str])
      | _ \<Rightarrow> ([], False))"

definition makeStrings :: "'f val list \<Rightarrow> string list \<times> bool" where
  "makeStrings auds = (if length auds = 0 then ([], False) else castStrings auds [])"

text \<open>
  In the type switch of \<open>Audience\<close> the case \<^verbatim>\<open>interface{}\<close> comes last and takes
  every value that is not the nil interface; the nil interface matches no case.
\<close>

definition Audience :: "'f Claims \<Rightarrow> string list \<times> bool" where
  "Audience c =
     (case Get c ''aud'' of (value, ok) \<Rightarrow>
        if \<not> ok then ([], False)
        else (case value of
                VStrings aud \<Rightarrow> (aud, True)
              | VString aud \<Rightarrow> ([aud], True)
              | VList aud \<Rightarrow> makeStrings aud
              | VNil \<Rightarrow> ([], False)
              | _ \<Rightarrow> makeStrings [value]))"

definition SetAudience :: "'f Claims \<Rightarrow> string list \<Rightarrow> 'f Claims \<times> string list" where
  "SetAudience c auds =
     (let old = fst (Audience c);
          c' = (case length auds of
                  0 \<Rightarrow> fst (Delete c ''aud'')
                | Suc 0 \<Rightarrow> fst (Set c ''aud'' (VString (auds ! 0)))
                | _ \<Rightarrow> fst (Set c ''aud'' (VStrings auds)))
      in (c', old))"

section \<open>The JSON codec\<close>

text \<open>
  The error codes of the package (declared outside the files at hand) and
  \<^verbatim>\<open>errors.Annotate(err, code, errorMessages)\<close>, which wraps the library's error.
\<close>

datatype jwt_code = ErrJSONMarshalling | ErrJSONUnmarshalling

datatype jwt_error = Annotate lib_error jwt_code

definition MarshalJSON :: "'f go_env \<Rightarrow> 'f Claims \<Rightarrow> jwt_error + string" where
  "MarshalJSON env c =
     (if Len c = 0 then Inr ''{}''
      else (case json_Marshal env c of
              Inl err \<Rightarrow> Inl (Annotate err ErrJSONMarshalling)
            | Inr b \<Rightarrow> Inr b))"


section \<open>Dispatch of a job to a resource handler\<close>

datatype rest_code =
    ErrNoGetHandler | ErrNoHeadHandler | ErrNoPutHandler | ErrNoPostHandler
  | ErrNoPatchHandler | ErrNoDeleteHandler | ErrNoOptionsHandler | ErrMethodNotSupported

text \<open>
  An error returned by \<open>handleJob\<close>: \<^verbatim>\<open>errors.New(code, errorMessages, arg)\<close>, or
  whatever error the handler's own method returned.
\<close>

datatype rest_error = RestError rest_code string | HandlerError string

text \<open>What \<open>handleJob\<close> reads from the job: the request method, domain and resource.\<close>

record job =
  Method :: string
  Domain :: string
  Resource :: string

type_synonym job_method = "job \<Rightarrow> bool \<times> rest_error option"

text \<open>
  A (non-nil) resource handler: its ID and, for each of the optional interfaces,
  the method its dynamic type has for it, if any. A type assertion
  \<^verbatim>\<open>handler.(GetResourceHandler)\<close> succeeds exactly when that method is there.
\<close>

record handler =
  ID :: string
  GetResourceHandler :: "job_method option"
  ReadResourceHandler :: "job_method option"
  HeadResourceHandler :: "job_method option"
  PutResourceHandler :: "job_method option"
  UpdateResourceHandler :: "job_method option"
  PostResourceHandler :: "job_method option"
  CreateResourceHandler :: "job_method option"
  PatchResourceHandler :: "job_method option"
  ModifyResourceHandler :: "job_method option"
  DeleteResourceHandler :: "job_method option"
  OptionsResourceHandler :: "job_method option"
  InfoResourceHandler :: "job_method option"

definition handler_id :: "handler \<Rightarrow> job \<Rightarrow> string" where
  "handler_id h j = ID h @ ''@'' @ Domain j @ ''/'' @ Resource j"

definition handleJob :: "handler \<Rightarrow> job \<Rightarrow> bool \<times> rest_error option" where
  "handleJob h j =
     (if Method j = ''GET'' then
        (case GetResourceHandler h of
           Some grh \<Rightarrow> grh j
         | None \<Rightarrow>
             (case ReadResourceHandler h of
                Some rrh \<Rightarrow> rrh j
              | None \<Rightarrow> (False, Some (RestError ErrNoGetHandler (handler_id h j)))))
      else if Method j = ''HEAD'' then
        (case HeadResourceHandler h of
           Some hrh \<Rightarrow> hrh j
         | None \<Rightarrow> (False, Some (RestError ErrNoHeadHandler (handler_id h j))))
      else if Method j = ''PUT'' then
        (case PutResourceHandler h of
           Some prh \<Rightarrow> prh j
         | None \<Rightarrow>
             (case UpdateResourceHandler h of
                Some urh \<Rightarrow> urh j
              | None \<Rightarrow> (False, Some (RestError ErrNoPutHandler (handler_id h j)))))
      else if Method j = ''POST'' then
        (case PostResourceHandler h of
           Some prh \<Rightarrow> prh j
         | None \<Rightarrow>
             (case CreateResourceHandler h of
                Some crh \<Rightarrow> crh j
              | None \<Rightarrow> (False, Some (RestError ErrNoPostHandler (handler_id h j)))))
      else if Method j = ''PATCH'' then
        (case PatchResourceHandler h of
           Some prh \<Rightarrow> prh j
         | None \<Rightarrow>
             (case ModifyResourceHandler h of
                Some mrh \<Rightarrow> mrh j
              | None \<Rightarrow> (False, Some (RestError ErrNoPatchHandler (handler_id h j)))))
      else if Method j = ''DELETE'' then
        (case DeleteResourceHandler h of
           Some drh \<Rightarrow> drh j
         | None \<Rightarrow> (False, Some (RestError ErrNoDeleteHandler (handler_id h j))))
      else if Method j = ''OPTIONS'' then
        (case OptionsResourceHandler h of
           Some orh \<Rightarrow> orh j
         | None \<Rightarrow>
             (case InfoResourceHandler h of
                Some irh \<Rightarrow> irh j
              | None \<Rightarrow> (False, Some (RestError ErrNoOptionsHandler (handler_id h j)))))
      else (False, Some (RestError ErrMethodNotSupported (Method j))))"

text \<open>
  The dispatch as the handler comments describe it, to compare \<open>handleJob\<close> with:
  each verb has a native interface, some have an alias interface after the REST
  conventions (Read for GET, Update for PUT, Create for POST, Modify for PATCH, Info
  for OPTIONS; HEAD and DELETE have none), and each has its own error code.
\<close>

datatype verb = GET | HEAD | PUT | POST | PATCH | DELETE | OPTIONS

fun verb_method :: "verb \<Rightarrow> string" where
  "verb_method GET = ''GET''"
| "verb_method HEAD = ''HEAD''"
| "verb_method PUT = ''PUT''"
| "verb_method POST = ''POST''"
| "verb_method PATCH = ''PATCH''"
| "verb_method DELETE = ''DELETE''"
| "verb_method OPTIONS = ''OPTIONS''"

fun native_method :: "handler \<Rightarrow> verb \<Rightarrow> job_method option" where
  "native_method h GET = GetResourceHandler h"
| "native_method h HEAD = HeadResourceHandler h"
| "native_method h PUT = PutResourceHandler h"
| "native_method h POST = PostResourceHandler h"
| "native_method h PATCH = PatchResourceHandler h"
| "native_method h DELETE = DeleteResourceHandler h"
| "native_method h OPTIONS = OptionsResourceHandler h"

fun alias_method :: "handler \<Rightarrow> verb \<Rightarrow> job_method option" where
  "alias_method h GET = ReadResourceHandler h"
| "alias_method h HEAD = None"
| "alias_method h PUT = UpdateResourceHandler h"
| "alias_method h POST = CreateResourceHandler h"
| "alias_method h PATCH = ModifyResourceHandler h"
| "alias_method h DELETE = None"
| "alias_method h OPTIONS = InfoResourceHandler h"

fun no_handler_code :: "verb \<Rightarrow> rest_code" where
  "no_handler_code GET = ErrNoGetHandler"
| "no_handler_code HEAD = ErrNoHeadHandler"
| "no_handler_code PUT = ErrNoPutHandler"
| "no_handler_code POST = ErrNoPostHandler"
| "no_handler_code PATCH = ErrNoPatchHandler"
| "no_handler_code DELETE = ErrNoDeleteHandler"
| "no_handler_code OPTIONS = ErrNoOptionsHandler"

section \<open>An environment to run the model in\<close>

text \<open>
  The theorems hold for every environment. To evaluate the model on concrete
  inputs one environment is fixed here. Its \<^verbatim>\<open>float64\<close> values are rational
  numbers; its functions follow the documentation of the Go library on the inputs
  they know and return an error on every other input.

  \<open>ParseInt10\<close> is \<^verbatim>\<open>strconv.ParseInt(s, 10, 64)\<close>: an optional sign, then one
  or more decimal digits, and a range error outside 64 bits.
\<close>

definition digit_of :: "char \<Rightarrow> nat option" where
  "digit_of ch =
     (let n = (of_char ch :: nat) in if 48 \<le> n \<and> n \<le> 57 then Some (n - 48) else None)"

fun digits_value :: "string \<Rightarrow> nat \<Rightarrow> nat option" where
  "digits_value [] n = Some n"
| "digits_value (ch # s) n =
     (case digit_of ch of None \<Rightarrow> None | Some d \<Rightarrow> digits_value s (10 * n + d))"

definition ParseUint10 :: "string \<Rightarrow> nat option" where
  "ParseUint10 s =
     (if s = [] then None
      else (case digits_value s 0 of
              None \<Rightarrow> None
            | Some n \<Rightarrow> if n < 2 ^ 64 then Some n else None))"

definition ParseInt10 :: "string \<Rightarrow> 64 word option" where
  "ParseInt10 s =
     (if s = [] then None
      else (let neg = (hd s = CHR ''-'');
                s' = (if hd s = CHR ''+'' \<or> hd s = CHR ''-'' then tl s else s)
            in (case ParseUint10 s' of
                  None \<Rightarrow> None
                | Some un \<Rightarrow>
                    if \<not> neg \<and> un \<ge> 2 ^ 63 then None
                    else if neg \<and> un > 2 ^ 63 then None
                    else Some (if neg then - of_nat un else of_nat un))))"

text \<open>
  What \<^verbatim>\<open>json.Unmarshal\<close> does with a decoded document and a pointer to a map:
  a JSON object is stored member by member into the map at hand, or into a new map
  when there is none; the JSON value null sets the map variable to nil; any other
  value is a type error and changes nothing.
\<close>

definition store_document ::
  "'f val \<Rightarrow> (string, 'f val) fmap option \<Rightarrow> 'f unmarshalled" where
  "store_document doc raw =
     (let m = (case raw of None \<Rightarrow> fmempty | Some m \<Rightarrow> m)
      in (case doc of
            VObject obj \<Rightarrow>
              \<lparr>pointee = m ++\<^sub>f obj, raw_after = Some (m ++\<^sub>f obj), unmarshal_err = None\<rparr>
          | VNil \<Rightarrow> \<lparr>pointee = m, raw_after = None, unmarshal_err = None\<rparr>
          | _ \<Rightarrow>
              \<lparr>pointee = m, raw_after = raw,
               unmarshal_err = Some (LibError ''json: cannot unmarshal into Go value'')\<rparr>))"

text \<open>The JSON documents the environment can read, with their decoded values.\<close>

definition known_documents :: "(string \<times> rat val) list" where
  \<open>known_documents =
     [(''null'', VNil),
      (''{}'', VObject fmempty),
      (''{"sub":"u1"}'', VObject (fmupd ''sub'' (VString ''u1'') fmempty)),
      (''7'', VFloat64 7)]\<close>

definition test_env :: "rat go_env" where
  "test_env =
     \<lparr>int_of_float64 = (\<lambda>q. word_of_int (if 0 \<le> q then \<lfloor>q\<rfloor> else \<lceil>q\<rceil>)),
      float64_of_int = (\<lambda>i. of_int (sint i)),
      strconv_ParseInt =
        (\<lambda>s base bitSize. if base = 10 \<and> bitSize = 64 then ParseInt10 s else None),
      strconv_ParseFloat =
        (\<lambda>s bitSize. map_option (\<lambda>i. of_int (sint i)) (ParseInt10 s)),
      time_Parse =
        (\<lambda>layout v.
           if layout = RFC3339 \<and> v = ''1970-01-01T00:00:00Z''
           then Some \<lparr>unixSec = 0, nanos = 0, location = UTC\<rparr>
           else None),
      json_Marshal =
        (\<lambda>c. case c of
               None \<Rightarrow> Inr ''null''
             | Some m \<Rightarrow>
                 if m = fmempty then Inr ''{}'' else Inl (LibError ''json: unsupported value'')),
      json_Unmarshal =
        (\<lambda>bs raw.
           case map_of known_documents bs of
             Some doc \<Rightarrow> store_document doc raw
           | None \<Rightarrow>
               \<lparr>pointee = (case raw of None \<Rightarrow> fmempty | Some m \<Rightarrow> m), raw_after = raw,
                unmarshal_err = Some (LibError ''invalid character'')\<rparr>)\<rparr>"


text \<open>A handler to run \<open>handleJob\<close> on: it has Get, Read and Update only.\<close>

definition test_handler :: handler where
  "test_handler =
     \<lparr>ID = ''h1'',
      GetResourceHandler = Some (\<lambda>j. (True, None)),
      ReadResourceHandler = Some (\<lambda>j. (False, Some (HandlerError ''read''))),
      HeadResourceHandler = None,
      PutResourceHandler = None,
      UpdateResourceHandler = Some (\<lambda>j. (False, Some (HandlerError ''update''))),
      PostResourceHandler = None,
      CreateResourceHandler = None,
      PatchResourceHandler = None,
      ModifyResourceHandler = None,
      DeleteResourceHandler = None,
      OptionsResourceHandler = None,
      InfoResourceHandler = None\<rparr>"

section \<open>The uninitialized container\<close>

lemma apply_write_nil: "apply_write None w = (None, VNil)"
  by (cases w) (simp_all add: Set_def Delete_def Get_def)

lemma apply_writes_nil: "apply_writes None ws = None"
  by (induction ws) (simp_all add: apply_write_nil)

text \<open>
  C1. On the nil container, \<open>Set\<close> and \<open>Delete\<close> return nil and leave the container
  nil (no storage is allocated); after any sequence of such writes the container is
  still nil, and \<open>Get\<close> and \<open>Contains\<close> report every key absent.
\<close>

theorem nil_claims_writes_are_noops:
  "Set None key v = (None, VNil)
   \<and> Delete None key = (None, VNil)
   \<and> apply_writes None ws = None
   \<and> Get (apply_writes None ws) key' = (VNil, False)
   \<and> Contains (apply_writes None ws) key' = False"
  by (simp add: apply_writes_nil Set_def Delete_def Get_def Contains_def)

section \<open>Reading and writing the audience\<close>

lemma castStrings_all_strings: "castStrings (map VString ss) strs = (strs @ ss, True)"
  by (induction ss arbitrary: strs) simp_all

lemma castStrings_not_string:
  "v \<in> set auds \<Longrightarrow> (\<forall>s. v \<noteq> VString s) \<Longrightarrow> castStrings auds strs = ([], False)"
proof (induction auds arbitrary: strs)
  case Nil
  then show ?case by simp
next
  case (Cons a auds)
  then show ?case by (cases a) auto
qed

lemma Get_Some: "fmlookup m key = Some v \<Longrightarrow> Get (Some m) key = (v, True)"
  by (simp add: Get_def)

lemma Get_absent: "fmlookup m key = None \<Longrightarrow> Get (Some m) key = (VNil, False)"
  by (simp add: Get_def)

lemma Get_nil: "Get None key = (VNil, False)"
  by (simp add: Get_def)

text \<open>
  C2, as stated: whenever the stored \<open>aud\<close> value is an untyped sequence all of whose
  elements are strings, \<open>Audience\<close> returns these strings and reports found. This
  fails for the sequence without elements, which the helper rejects before its loop.
\<close>

theorem Audience_all_textual_counterexample:
  "\<not> (\<forall>(m :: (string, 'f val) fmap) ss.
         fmlookup m ''aud'' = Some (VList (map VString ss)) \<longrightarrow> Audience (Some m) = (ss, True))"
proof
  assume a: "\<forall>(m :: (string, 'f val) fmap) ss.
         fmlookup m ''aud'' = Some (VList (map VString ss)) \<longrightarrow> Audience (Some m) = (ss, True)"
  have "fmlookup (fmupd ''aud'' (VList (map VString [])) (fmempty :: (string, 'f val) fmap)) ''aud''
          = Some (VList (map VString []))"
    by simp
  with a have "Audience (Some (fmupd ''aud'' (VList (map VString [])) (fmempty :: (string, 'f val) fmap))) = ([], True)"
    by blast
  then show False
    by (simp add: Audience_def Get_def makeStrings_def)
qed

text \<open>
  C2, amended: a lone string is returned as a one-element sequence, a sequence of
  strings as it is, and a non-empty untyped sequence of strings as the sequence of
  these strings, each with found; an untyped sequence with an element that is not
  a string is not found, and neither is \<open>aud\<close> when the key is absent or the
  container is nil.
\<close>

theorem Audience_read_rule:
  "(fmlookup (m :: (string, 'f val) fmap) ''aud'' = Some (VString s)
        \<longrightarrow> Audience (Some m) = ([s], True))
   \<and> (fmlookup m ''aud'' = Some (VStrings ss) \<longrightarrow> Audience (Some m) = (ss, True))
   \<and> (fmlookup m ''aud'' = Some (VList (map VString ss)) \<and> ss \<noteq> []
        \<longrightarrow> Audience (Some m) = (ss, True))
   \<and> (fmlookup m ''aud'' = Some (VList auds) \<and> v \<in> set auds \<and> (\<forall>s. v \<noteq> VString s)
        \<longrightarrow> Audience (Some m) = ([], False))
   \<and> (fmlookup m ''aud'' = None \<longrightarrow> Audience (Some m) = ([], False))
   \<and> Audience (None :: 'f Claims) = ([], False)"
proof (intro conjI impI)
  show "Audience (None :: 'f Claims) = ([], False)"
    by (simp add: Audience_def Get_nil)
next
  assume "fmlookup m ''aud'' = None"
  then show "Audience (Some m) = ([], False)"
    by (simp add: Audience_def Get_absent)
next
  assume "fmlookup m ''aud'' = Some (VString s)"
  then show "Audience (Some m) = ([s], True)"
    by (simp add: Audience_def Get_Some)
next
  assume "fmlookup m ''aud'' = Some (VStrings ss)"
  then show "Audience (Some m) = (ss, True)"
    by (simp add: Audience_def Get_Some)
next
  assume "fmlookup m ''aud'' = Some (VList (map VString ss)) \<and> ss \<noteq> []"
  then show "Audience (Some m) = (ss, True)"
    by (simp add: Audience_def Get_Some makeStrings_def castStrings_all_strings)
next
  assume a: "fmlookup m ''aud'' = Some (VList auds) \<and> v \<in> set auds \<and> (\<forall>s. v \<noteq> VString s)"
  then have "auds \<noteq> []" by auto
  moreover from a have "castStrings auds [] = ([], False)"
    using castStrings_not_string [of v auds "[]"] by blast
  ultimately show "Audience (Some m) = ([], False)"
    using a by (simp add: Audience_def Get_Some makeStrings_def)
qed

theorem Audience_read_rule_witness:
  "Audience (Some (fmupd ''aud'' (VString ''a'') (fmempty :: (string, rat val) fmap))) = ([''a''], True)
   \<and> Audience (Some (fmupd ''aud'' (VStrings [''a'', ''b'']) (fmempty :: (string, rat val) fmap))) = ([''a'', ''b''], True)
   \<and> Audience (Some (fmupd ''aud'' (VList [VString ''a'', VString ''b'']) (fmempty :: (string, rat val) fmap)))
       = ([''a'', ''b''], True)
   \<and> Audience (Some (fmupd ''aud'' (VList [VString ''a'', VInt 7]) (fmempty :: (string, rat val) fmap))) = ([], False)
   \<and> Audience (Some (fmupd ''iss'' (VString ''me'') (fmempty :: (string, rat val) fmap))) = ([], False)"
proof -
  have 1: "Audience (Some (fmupd ''aud'' (VString ''a'') (fmempty :: (string, rat val) fmap))) = ([''a''], True)"
    using Audience_read_rule [where m = "fmupd ''aud'' (VString ''a'') (fmempty :: (string, rat val) fmap)" and s = "''a''"]
    by simp
  have 2: "Audience (Some (fmupd ''aud'' (VStrings [''a'', ''b'']) (fmempty :: (string, rat val) fmap))) = ([''a'', ''b''], True)"
    using Audience_read_rule [where m = "fmupd ''aud'' (VStrings [''a'', ''b'']) (fmempty :: (string, rat val) fmap)"
        and ss = "[''a'', ''b'']"]
    by simp
  have 3: "Audience (Some (fmupd ''aud'' (VList [VString ''a'', VString ''b'']) (fmempty :: (string, rat val) fmap)))
             = ([''a'', ''b''], True)"
    using Audience_read_rule [where m = "fmupd ''aud'' (VList [VString ''a'', VString ''b'']) (fmempty :: (string, rat val) fmap)"
        and ss = "[''a'', ''b'']"]
    by simp
  have 4: "Audience (Some (fmupd ''aud'' (VList [VString ''a'', VInt 7]) (fmempty :: (string, rat val) fmap))) = ([], False)"
    using Audience_read_rule [where m = "fmupd ''aud'' (VList [VString ''a'', VInt 7]) (fmempty :: (string, rat val) fmap)"
        and auds = "[VString ''a'', VInt 7]" and v = "VInt 7"]
    by simp
  have 5: "Audience (Some (fmupd ''iss'' (VString ''me'') (fmempty :: (string, rat val) fmap))) = ([], False)"
    using Audience_read_rule [where m = "fmupd ''iss'' (VString ''me'') (fmempty :: (string, rat val) fmap)"]
    by simp
  from 1 2 3 4 5 show ?thesis by blast
qed

text \<open>
  C3. On an initialized container \<open>SetAudience\<close> without audiences deletes the key
  \<open>aud\<close>; with one audience the raw value under \<open>aud\<close> is then that bare string;
  with two or more it is the whole sequence of strings.
\<close>

theorem SetAudience_write_rule:
  "fst (SetAudience (Some m) []) = Some (fmdrop ''aud'' m)
   \<and> Contains (fst (SetAudience (Some m) [])) ''aud'' = False
   \<and> Get (fst (SetAudience (Some m) [a])) ''aud'' = (VString a, True)
   \<and> Get (fst (SetAudience (Some m) (a # b # auds))) ''aud'' = (VStrings (a # b # auds), True)"
  by (simp add: SetAudience_def Set_def Delete_def Contains_def Get_def)

text \<open>
  C10. When \<open>aud\<close> holds an untyped sequence without elements, \<open>Audience\<close> reports
  not found.
\<close>

theorem Audience_empty_untyped_sequence:
  "fmlookup m ''aud'' = Some (VList []) \<Longrightarrow> Audience (Some m) = ([], False)"
  by (simp add: Audience_def Get_Some makeStrings_def)

theorem Audience_empty_untyped_sequence_witness:
  "fmlookup (fmupd ''aud'' (VList []) fmempty) ''aud'' = Some (VList [])
   \<and> Audience (Some (fmupd ''aud'' (VList []) fmempty)) = ([], False)"
  using Audience_empty_untyped_sequence [of "fmupd ''aud'' (VList []) fmempty"] by simp

section \<open>Integer and float accessors\<close>



lemma trunc_test_neg: "int_of_float64 test_env (- (7 / 2)) = - 3"
  by code_simp






section \<open>Time accessors\<close>

text \<open>
  C7. \<open>GetTime\<close> reads a stored \<^verbatim>\<open>int\<close>, \<^verbatim>\<open>int32\<close>, \<^verbatim>\<open>int64\<close> or
  \<^verbatim>\<open>float64\<close> as seconds since the Unix epoch and reports found (the time has
  that Unix second and no nanoseconds); a stored string is handed to
  \<^verbatim>\<open>time.Parse\<close> with the RFC 3339 layout, and is the parsed time with found, or,
  when the parse fails, the zero time with not found; a value of any other type,
  an absent key and the nil container give the zero time with not found.
\<close>

theorem GetTime_coercion:
  fixes m :: "(string, 'f val) fmap" and env :: "'f go_env"
  shows
  "(fmlookup m key = Some (VInt i) \<longrightarrow> GetTime env (Some m) key = (time_Unix i, True))
   \<and> (fmlookup m key = Some (VInt32 j) \<longrightarrow> GetTime env (Some m) key = (time_Unix (scast j), True))
   \<and> (fmlookup m key = Some (VInt64 i) \<longrightarrow> GetTime env (Some m) key = (time_Unix i, True))
   \<and> (fmlookup m key = Some (VFloat64 x)
        \<longrightarrow> GetTime env (Some m) key = (time_Unix (int_of_float64 env x), True))
   \<and> Time_Unix (time_Unix i) = i \<and> nanos (time_Unix i) = 0
   \<and> (fmlookup m key = Some (VString s) \<and> time_Parse env RFC3339 s = Some t
        \<longrightarrow> GetTime env (Some m) key = (t, True))
   \<and> (fmlookup m key = Some (VString s) \<and> time_Parse env RFC3339 s = None
        \<longrightarrow> GetTime env (Some m) key = (zero_Time, False))
   \<and> (fmlookup m key = Some v \<and> (\<forall>i. v \<noteq> VInt i) \<and> (\<forall>j. v \<noteq> VInt32 j) \<and> (\<forall>i. v \<noteq> VInt64 i)
          \<and> (\<forall>x. v \<noteq> VFloat64 x) \<and> (\<forall>s. v \<noteq> VString s)
        \<longrightarrow> GetTime env (Some m) key = (zero_Time, False))
   \<and> (fmlookup m key = None \<longrightarrow> GetTime env (Some m) key = (zero_Time, False))
   \<and> GetTime env None key = (zero_Time, False)"
proof -
  have other: "GetTime env (Some m) key = (zero_Time, False)"
    if "fmlookup m key = Some v" "\<forall>i. v \<noteq> VInt i" "\<forall>j. v \<noteq> VInt32 j" "\<forall>i. v \<noteq> VInt64 i"
      "\<forall>x. v \<noteq> VFloat64 x" "\<forall>s. v \<noteq> VString s"
    using that by (cases v) (simp_all add: GetTime_def Get_Some)
  show ?thesis
    using other
    by (auto simp add: GetTime_def Get_Some Get_absent Get_nil Time_Unix_def time_Unix_def)
qed

theorem GetTime_coercion_witness:
  "GetTime test_env (Some (fmupd ''exp'' (VInt 1700000000) fmempty)) ''exp''
     = (time_Unix 1700000000, True)
   \<and> GetTime test_env (Some (fmupd ''exp'' (VInt32 (- 5)) fmempty)) ''exp'' = (time_Unix (- 5), True)
   \<and> GetTime test_env (Some (fmupd ''exp'' (VInt64 7) fmempty)) ''exp'' = (time_Unix 7, True)
   \<and> GetTime test_env (Some (fmupd ''exp'' (VFloat64 (- (7 / 2))) fmempty)) ''exp''
       = (time_Unix (- 3), True)
   \<and> GetTime test_env (Some (fmupd ''exp'' (VString ''1970-01-01T00:00:00Z'') fmempty)) ''exp''
       = (\<lparr>unixSec = 0, nanos = 0, location = UTC\<rparr>, True)
   \<and> GetTime test_env (Some (fmupd ''exp'' (VString ''tomorrow'') fmempty)) ''exp''
       = (zero_Time, False)
   \<and> GetTime test_env (Some (fmupd ''exp'' (VBool True) fmempty)) ''exp'' = (zero_Time, False)
   \<and> GetTime test_env (Some fmempty) ''exp'' = (zero_Time, False)"
proof -
  have ok: "time_Parse test_env RFC3339 ''1970-01-01T00:00:00Z''
              = Some \<lparr>unixSec = 0, nanos = 0, location = UTC\<rparr>"
    by (simp add: test_env_def)
  have bad: "time_Parse test_env RFC3339 ''tomorrow'' = None"
    by (simp add: test_env_def)
  have 1: "GetTime test_env (Some (fmupd ''exp'' (VInt 1700000000) fmempty)) ''exp''
             = (time_Unix 1700000000, True)"
    using GetTime_coercion [where env = test_env and key = "''exp''" and i = 1700000000
        and m = "fmupd ''exp'' (VInt 1700000000) fmempty"]
    by simp
  have 2: "GetTime test_env (Some (fmupd ''exp'' (VInt32 (- 5)) fmempty)) ''exp''
             = (time_Unix (- 5), True)"
    using GetTime_coercion [where env = test_env and key = "''exp''" and j = "- 5"
        and m = "fmupd ''exp'' (VInt32 (- 5)) fmempty"]
    by simp
  have 3: "GetTime test_env (Some (fmupd ''exp'' (VInt64 7) fmempty)) ''exp'' = (time_Unix 7, True)"
    using GetTime_coercion [where env = test_env and key = "''exp''" and i = 7
        and m = "fmupd ''exp'' (VInt64 7) fmempty"]
    by simp
  have 4: "GetTime test_env (Some (fmupd ''exp'' (VFloat64 (- (7 / 2))) fmempty)) ''exp''
             = (time_Unix (- 3), True)"
    using GetTime_coercion [where env = test_env and key = "''exp''" and x = "- (7 / 2)"
        and m = "fmupd ''exp'' (VFloat64 (- (7 / 2))) fmempty"]
    by (simp add: trunc_test_neg)
  have 5: "GetTime test_env (Some (fmupd ''exp'' (VString ''1970-01-01T00:00:00Z'') fmempty)) ''exp''
             = (\<lparr>unixSec = 0, nanos = 0, location = UTC\<rparr>, True)"
    using GetTime_coercion [where env = test_env and key = "''exp''"
        and s = "''1970-01-01T00:00:00Z''" and t = "\<lparr>unixSec = 0, nanos = 0, location = UTC\<rparr>"
        and m = "fmupd ''exp'' (VString ''1970-01-01T00:00:00Z'') fmempty"] ok
    by simp
  have 6: "GetTime test_env (Some (fmupd ''exp'' (VString ''tomorrow'') fmempty)) ''exp''
             = (zero_Time, False)"
    using GetTime_coercion [where env = test_env and key = "''exp''" and s = "''tomorrow''"
        and m = "fmupd ''exp'' (VString ''tomorrow'') fmempty"] bad
    by simp
  have 7: "GetTime test_env (Some (fmupd ''exp'' (VBool True) fmempty)) ''exp'' = (zero_Time, False)"
    using GetTime_coercion [where env = test_env and key = "''exp''" and v = "VBool True"
        and m = "fmupd ''exp'' (VBool True) fmempty"]
    by simp
  have 8: "GetTime test_env (Some fmempty) ''exp'' = (zero_Time, False)"
    using GetTime_coercion [where env = test_env and key = "''exp''" and m = fmempty]
    by simp
  from 1 2 3 4 5 6 7 8 show ?thesis by blast
qed

lemma GetTime_not_found: "\<not> snd (GetTime env c key) \<Longrightarrow> fst (GetTime env c key) = zero_Time"
  by (auto simp add: GetTime_def Get_def split: option.splits val.splits)

text \<open>
  C4. On an initialized container \<open>SetExpiration t\<close> followed by \<open>Expiration\<close>
  reports found with the time of the Unix second of \<open>t\<close>, which is the same instant
  as \<open>t\<close> without its nanoseconds. \<open>SetTime\<close> stores the Unix seconds of \<open>t\<close> (an
  \<^verbatim>\<open>int64\<close>) under the key and returns what \<open>GetTime\<close> made of the previous
  value, which is the zero time when \<open>GetTime\<close> found nothing.
\<close>

theorem SetExpiration_round_trip:
  fixes m :: "(string, 'f val) fmap" and env :: "'f go_env" and c :: "'f Claims"
  shows
  "Expiration env (fst (SetExpiration env (Some m) t)) = (time_Unix (Time_Unix t), True)
   \<and> Time_Equal (fst (Expiration env (fst (SetExpiration env (Some m) t)))) (t\<lparr>nanos := 0\<rparr>)
   \<and> Get (fst (SetTime env (Some m) key t)) key = (VInt64 (Time_Unix t), True)
   \<and> snd (SetTime env c key t) = fst (GetTime env c key)
   \<and> (\<not> snd (GetTime env c key) \<longrightarrow> snd (SetTime env c key t) = zero_Time)"
proof -
  have a: "fst (SetTime env (Some m) k t) = Some (fmupd k (VInt64 (Time_Unix t)) m)" for k
    by (simp add: SetTime_def Set_def Let_def)
  have b: "GetTime env (Some (fmupd k (VInt64 i) m)) k = (time_Unix i, True)" for k i
    by (simp add: GetTime_def Get_def)
  have c: "snd (SetTime env c key t) = fst (GetTime env c key)"
    by (simp add: SetTime_def Let_def)
  show ?thesis
    using GetTime_not_found [of env c key]
    by (simp add: a b c Expiration_def SetExpiration_def Get_def Time_Equal_def
        time_Unix_def Time_Unix_def)
qed

theorem SetExpiration_round_trip_witness:
  "snd (GetTime test_env (Some (fmempty :: (string, rat val) fmap)) ''exp'') = False
   \<and> snd (SetTime test_env (Some fmempty) ''exp'' \<lparr>unixSec = 1700000000, nanos = 123456789, location = UTC\<rparr>)
       = zero_Time
   \<and> Expiration test_env (fst (SetExpiration test_env (Some fmempty)
         \<lparr>unixSec = 1700000000, nanos = 123456789, location = UTC\<rparr>))
       = (\<lparr>unixSec = 1700000000, nanos = 0, location = Local\<rparr>, True)"
  using SetExpiration_round_trip [where env = test_env and m = fmempty and c = "Some fmempty"
      and key = "''exp''" and t = "\<lparr>unixSec = 1700000000, nanos = 123456789, location = UTC\<rparr>"]
  by (simp add: GetTime_def Get_def time_Unix_def Time_Unix_def)

section \<open>Encoding and decoding\<close>

lemma fmdom_empty_imp: "fmdom m = {||} \<Longrightarrow> m = fmempty"
proof (rule fmap_ext)
  fix x
  assume "fmdom m = {||}"
  then have "x |\<notin>| fmdom m" by simp
  then show "fmlookup m x = fmlookup fmempty x"
    by (simp add: fmdom_notD)
qed

lemma Len_0_iff: "Len c = 0 \<longleftrightarrow> c = None \<or> c = Some fmempty"
  by (cases c) (auto simp add: Len_def fcard_0_eq dest: fmdom_empty_imp)

text \<open>
  C5. For the nil container and for the container without entries, which are the
  containers of length 0, \<open>MarshalJSON\<close> returns the bytes \<^verbatim>\<open>{}\<close> and no error;
  the result is never \<^verbatim>\<open>null\<close>.
\<close>

theorem MarshalJSON_empty_object:
  fixes env :: "'f go_env" and c :: "'f Claims"
  shows
  "MarshalJSON env (None :: 'f Claims) = Inr ''{}''
   \<and> MarshalJSON env (Some fmempty) = Inr ''{}''
   \<and> (Len c = 0 \<longrightarrow> MarshalJSON env c = Inr ''{}'' \<and> MarshalJSON env c \<noteq> Inr ''null'')
   \<and> (Len c = 0 \<longleftrightarrow> c = None \<or> c = Some fmempty)"
  using Len_0_iff [of c] by (auto simp add: MarshalJSON_def Len_def)

theorem MarshalJSON_empty_object_witness:
  "Len (Some (fmempty :: (string, rat val) fmap)) = 0
   \<and> MarshalJSON test_env (Some fmempty) = Inr ''{}''
   \<and> Len (None :: rat Claims) = 0
   \<and> MarshalJSON test_env None = Inr ''{}''"
  using MarshalJSON_empty_object [where env = test_env and c = "Some fmempty"]
    MarshalJSON_empty_object [where env = test_env and c = None]
  by (simp add: Len_def)




section \<open>Dispatch\<close>

text \<open>
  C9. For a job whose request method is that of one of the verbs, \<open>handleJob\<close> calls
  the handler's native method when the handler has it, otherwise the alias method
  when the verb has an alias and the handler has it, and otherwise returns false
  with the verb's error code and the string \<open>ID@domain/resource\<close>.
\<close>

theorem handleJob_probe_order:
  "Method j = verb_method v \<Longrightarrow>
   handleJob h j =
     (case native_method h v of
        Some f \<Rightarrow> f j
      | None \<Rightarrow>
          (case alias_method h v of
             Some g \<Rightarrow> g j
           | None \<Rightarrow>
               (False,
                Some (RestError (no_handler_code v) (ID h @ ''@'' @ Domain j @ ''/'' @ Resource j)))))"
  by (cases v) (simp_all add: handleJob_def handler_id_def split: option.splits)

theorem handleJob_probe_order_witness:
  "Method \<lparr>Method = ''GET'', Domain = ''d'', Resource = ''r''\<rparr> = verb_method GET
   \<and> handleJob test_handler \<lparr>Method = ''GET'', Domain = ''d'', Resource = ''r''\<rparr> = (True, None)
   \<and> handleJob test_handler \<lparr>Method = ''PUT'', Domain = ''d'', Resource = ''r''\<rparr>
       = (False, Some (HandlerError ''update''))
   \<and> handleJob test_handler \<lparr>Method = ''POST'', Domain = ''d'', Resource = ''r''\<rparr>
       = (False, Some (RestError ErrNoPostHandler ''h1@d/r''))
   \<and> handleJob test_handler \<lparr>Method = ''DELETE'', Domain = ''d'', Resource = ''r''\<rparr>
       = (False, Some (RestError ErrNoDeleteHandler ''h1@d/r''))"
proof -
  have 1: "handleJob test_handler \<lparr>Method = ''GET'', Domain = ''d'', Resource = ''r''\<rparr>
             = (True, None)"
    using handleJob_probe_order
      [of "\<lparr>Method = ''GET'', Domain = ''d'', Resource = ''r''\<rparr>" GET test_handler]
    by (simp add: test_handler_def)
  have 2: "handleJob test_handler \<lparr>Method = ''PUT'', Domain = ''d'', Resource = ''r''\<rparr>
             = (False, Some (HandlerError ''update''))"
    using handleJob_probe_order
      [of "\<lparr>Method = ''PUT'', Domain = ''d'', Resource = ''r''\<rparr>" PUT test_handler]
    by (simp add: test_handler_def)
  have 3: "handleJob test_handler \<lparr>Method = ''POST'', Domain = ''d'', Resource = ''r''\<rparr>
             = (False, Some (RestError ErrNoPostHandler ''h1@d/r''))"
    using handleJob_probe_order
      [of "\<lparr>Method = ''POST'', Domain = ''d'', Resource = ''r''\<rparr>" POST test_handler]
    by (simp add: test_handler_def)
  have 4: "handleJob test_handler \<lparr>Method = ''DELETE'', Domain = ''d'', Resource = ''r''\<rparr>
             = (False, Some (RestError ErrNoDeleteHandler ''h1@d/r''))"
    using handleJob_probe_order
      [of "\<lparr>Method = ''DELETE'', Domain = ''d'', Resource = ''r''\<rparr>" DELETE test_handler]
    by (simp add: test_handler_def)
  from 1 2 3 4 show ?thesis by simp
qed

end
